theory Spec2Isabelle
  imports Main "HOL-Library.Word" "HOL-Library.AList"
begin

section \<open>Attribute values of the plugin framework\<close>

text \<open>
  The resource models hold \<^verbatim>\<open>types.String\<close>, \<^verbatim>\<open>types.Bool\<close> and \<^verbatim>\<open>types.Int64\<close>
  values. Each is a small struct of a state (null, unknown, known) and a payload that is
  the zero value unless the state is known. Go's \<^verbatim>\<open>==\<close> on two such structs compares state
  and payload, which is equality of the datatype below. Go's \<^verbatim>\<open>int64\<close> is a 64-bit word;
  Go's \<^verbatim>\<open>int\<close> is taken at its 64-bit width, so that \<^verbatim>\<open>int(x)\<close> of an \<^verbatim>\<open>int64\<close> is \<open>x\<close>.
\<close>

datatype 'a tfvalue = Null | Unknown | Known 'a

type_synonym int64 = "64 word"

fun IsNull :: "'a tfvalue \<Rightarrow> bool" where
  "IsNull Null = True"
| "IsNull Unknown = False"
| "IsNull (Known v) = False"

fun IsUnknown :: "'a tfvalue \<Rightarrow> bool" where
  "IsUnknown Null = False"
| "IsUnknown Unknown = True"
| "IsUnknown (Known v) = False"

fun ValueString :: "string tfvalue \<Rightarrow> string" where
  "ValueString (Known s) = s"
| "ValueString Null = ''''"
| "ValueString Unknown = ''''"

fun ValueBool :: "bool tfvalue \<Rightarrow> bool" where
  "ValueBool (Known b) = b"
| "ValueBool Null = False"
| "ValueBool Unknown = False"

fun ValueInt64 :: "int64 tfvalue \<Rightarrow> int64" where
  "ValueInt64 (Known i) = i"
| "ValueInt64 Null = 0"
| "ValueInt64 Unknown = 0"

section \<open>The client of the remote service (\<^verbatim>\<open>internal/pushover/client.go\<close>)\<close>

subsection \<open>Requests, responses and the transport\<close>

record Client =
  token :: string
  baseURL :: string

record GroupMember =
  gm_User :: string
  gm_Device :: string
  gm_Memo :: string
  gm_Disabled :: bool

text \<open>
  A decoded JSON response. Every response struct of the client (\<^verbatim>\<open>APIResponse\<close>,
  \<^verbatim>\<open>MessageResponse\<close>, \<^verbatim>\<open>GroupResponse\<close>, \<^verbatim>\<open>ValidateResponse\<close>, \<^verbatim>\<open>SoundsResponse\<close>) reads the
  fields it declares from the same JSON object; a field the object lacks has Go's zero
  value.
\<close>

record api_body =
  Status :: int64
  Request :: string
  Errors :: "string list"
  Receipt :: string
  Name :: string
  Users :: "GroupMember list"
  Group :: int64
  Devices :: "string list"
  Licenses :: "string list"
  Sounds :: "(string \<times> string) list"

datatype http_method = GET | POST

text \<open>
  \<^verbatim>\<open>url.Values\<close> is filled with \<^verbatim>\<open>Set\<close> only, which replaces the value of a key: an
  association list under \<open>AList.update\<close>. The body that goes on the wire is the encoding
  of these values; the model keeps the values.
\<close>

type_synonym url_values = "(string \<times> string) list"

record http_request =
  rq_method :: http_method
  rq_url :: string
  rq_form :: url_values

text \<open>
  What the HTTP round trip and the JSON decoding give back: one of the four failures
  that \<^verbatim>\<open>doPost\<close> and \<^verbatim>\<open>doGet\<close> wrap, or a decoded body.
\<close>

datatype transport_result =
    CreatingRequest string
  | SendingRequest string
  | ReadingResponse string
  | DecodingResponse string
  | Body api_body

text \<open>
  The log of a run: every request handed to \<^verbatim>\<open>doPost\<close> or \<^verbatim>\<open>doGet\<close>, in order, with what
  came back. The remote service is a function of the exchanges so far and the request,
  so it may answer the same request differently at different times.
\<close>

type_synonym exchange = "http_request \<times> transport_result"

type_synonym remote = "exchange list \<Rightarrow> http_request \<Rightarrow> transport_result"

fun Join :: "string list \<Rightarrow> string \<Rightarrow> string" where
  "Join [] sep = ''''"
| "Join [s] sep = s"
| "Join (s # t # rest) sep = s @ sep @ Join (t # rest) sep"

fun check_response :: "transport_result \<Rightarrow> string + api_body" where
  "check_response (CreatingRequest e) = Inl (''creating request: '' @ e)"
| "check_response (SendingRequest e) = Inl (''sending request: '' @ e)"
| "check_response (ReadingResponse e) = Inl (''reading response: '' @ e)"
| "check_response (DecodingResponse e) = Inl (''decoding response: '' @ e)"
| "check_response (Body b) =
     (if Status b \<noteq> 1 then Inl (''pushover API error: '' @ Join (Errors b) ''; '')
      else Inr b)"

definition doPost ::
  "Client \<Rightarrow> remote \<Rightarrow> string \<Rightarrow> url_values \<Rightarrow> exchange list \<Rightarrow> (string + api_body) \<times> exchange list" where
  "doPost c srv path params log =
     (let req = \<lparr>rq_method = POST, rq_url = baseURL c @ path, rq_form = params\<rparr>;
          raw = srv log req
      in (check_response raw, log @ [(req, raw)]))"

definition doGet ::
  "Client \<Rightarrow> remote \<Rightarrow> string \<Rightarrow> exchange list \<Rightarrow> (string + api_body) \<times> exchange list" where
  "doGet c srv path log =
     (let req = \<lparr>rq_method = GET, rq_url = baseURL c @ path, rq_form = []\<rparr>;
          raw = srv log req
      in (check_response raw, log @ [(req, raw)]))"

subsection \<open>Rendering numbers and escaping query components\<close>

function FormatUint :: "nat \<Rightarrow> string" where
  "FormatUint n =
     (if n < 10 then [char_of (48 + n)]
      else FormatUint (n div 10) @ [char_of (48 + n mod 10)])"
  by pat_completeness auto
termination
  by (relation "measure id") auto

declare FormatUint.simps [simp del]

definition Itoa :: "int64 \<Rightarrow> string" where
  "Itoa w = (let i = sint w in if i < 0 then CHR ''-'' # FormatUint (nat (- i)) else FormatUint (nat i))"

definition shouldEscape :: "char \<Rightarrow> bool" where
  "shouldEscape c =
     (let n = (of_char c :: nat)
      in \<not> ((97 \<le> n \<and> n \<le> 122) \<or> (65 \<le> n \<and> n \<le> 90) \<or> (48 \<le> n \<and> n \<le> 57)
             \<or> c = CHR ''-'' \<or> c = CHR ''_'' \<or> c = CHR ''.'' \<or> c = CHR ''~''))"

definition upperhex :: "nat \<Rightarrow> char" where
  "upperhex d = (if d < 10 then char_of (48 + d) else char_of (55 + d))"

definition escape_byte :: "char \<Rightarrow> string" where
  "escape_byte c =
     (if \<not> shouldEscape c then [c]
      else if c = CHR '' '' then ''+''
      else [CHR ''%'', upperhex ((of_char c :: nat) div 16), upperhex ((of_char c :: nat) mod 16)])"

definition QueryEscape :: "string \<Rightarrow> string" where
  "QueryEscape s = concat (map escape_byte s)"

text \<open>
  How an address is read back. Go's \<^verbatim>\<open>url.Parse\<close> takes as fragment what follows the
  first \<^verbatim>\<open>#\<close> of the address and as raw query what follows the first \<^verbatim>\<open>?\<close> of the rest
  (\<^verbatim>\<open>strings.Cut\<close> both times); \<open>None\<close> is an address with no query.
  \<^verbatim>\<open>url.QueryUnescape\<close> undoes \<^verbatim>\<open>url.QueryEscape\<close>: \<^verbatim>\<open>+\<close> is a space, \<^verbatim>\<open>%\<close> with two
  hexadecimal digits is the byte they spell, and a \<^verbatim>\<open>%\<close> without them is an error.
\<close>

fun Cut :: "string \<Rightarrow> char \<Rightarrow> string \<times> string option" where
  "Cut [] sep = ([], None)"
| "Cut (c # s) sep =
     (if c = sep then ([], Some s)
      else (case Cut s sep of (before, after) \<Rightarrow> (c # before, after)))"

definition RawQuery :: "string \<Rightarrow> string option" where
  "RawQuery rawURL = snd (Cut (fst (Cut rawURL CHR ''#'')) CHR ''?'')"

definition ishex :: "char \<Rightarrow> bool" where
  "ishex c =
     (let n = (of_char c :: nat)
      in (48 \<le> n \<and> n \<le> 57) \<or> (97 \<le> n \<and> n \<le> 102) \<or> (65 \<le> n \<and> n \<le> 70))"

definition unhex :: "char \<Rightarrow> nat" where
  "unhex c =
     (let n = (of_char c :: nat)
      in if 48 \<le> n \<and> n \<le> 57 then n - 48
         else if 97 \<le> n \<and> n \<le> 102 then n - 97 + 10
         else if 65 \<le> n \<and> n \<le> 70 then n - 65 + 10
         else 0)"

fun QueryUnescape :: "string \<Rightarrow> string option" where
  "QueryUnescape [] = Some []"
| "QueryUnescape (c # s) =
     (if c = CHR ''%''
      then (case s of
              h1 # h2 # rest \<Rightarrow>
                if ishex h1 \<and> ishex h2
                then map_option ((#) (char_of (unhex h1 * 16 + unhex h2))) (QueryUnescape rest)
                else None
            | _ \<Rightarrow> None)
      else if c = CHR ''+'' then map_option ((#) CHR '' '') (QueryUnescape s)
      else map_option ((#) c) (QueryUnescape s))"

subsection \<open>The operations\<close>

record MessageRequest =
  rq_Token :: string
  rq_User :: string
  rq_Message :: string
  rq_Title :: string
  rq_URL :: string
  rq_URLTitle :: string
  rq_Priority :: int64
  rq_Sound :: string
  rq_Device :: string
  rq_Timestamp :: int64
  rq_HTML :: int64
  rq_Monospace :: int64
  rq_TTL :: int64
  rq_Retry :: int64
  rq_Expire :: int64
  rq_Callback :: string

definition set_if :: "bool \<Rightarrow> string \<Rightarrow> string \<Rightarrow> url_values \<Rightarrow> url_values" where
  "set_if b k v params = (if b then AList.update k v params else params)"

text \<open>
  \<^verbatim>\<open>SendMessage\<close> first replaces an empty token of the request by the client's token,
  then fills the form in the order of the source.
\<close>

definition SendMessage_token :: "Client \<Rightarrow> MessageRequest \<Rightarrow> string" where
  "SendMessage_token c req = (if rq_Token req = '''' then token c else rq_Token req)"

definition SendMessage_params :: "Client \<Rightarrow> MessageRequest \<Rightarrow> url_values" where
  "SendMessage_params c req =
     (let p = AList.update ''token'' (SendMessage_token c req) [];
          p = AList.update ''user'' (rq_User req) p;
          p = AList.update ''message'' (rq_Message req) p;
          p = set_if (rq_Title req \<noteq> '''') ''title'' (rq_Title req) p;
          p = set_if (rq_URL req \<noteq> '''') ''url'' (rq_URL req) p;
          p = set_if (rq_URLTitle req \<noteq> '''') ''url_title'' (rq_URLTitle req) p;
          p = AList.update ''priority'' (Itoa (rq_Priority req)) p;
          p = set_if (rq_Sound req \<noteq> '''') ''sound'' (rq_Sound req) p;
          p = set_if (rq_Device req \<noteq> '''') ''device'' (rq_Device req) p;
          p = set_if (rq_Timestamp req \<noteq> 0) ''timestamp'' (Itoa (rq_Timestamp req)) p;
          p = set_if (rq_HTML req \<noteq> 0) ''html'' (Itoa (rq_HTML req)) p;
          p = set_if (rq_Monospace req \<noteq> 0) ''monospace'' (Itoa (rq_Monospace req)) p;
          p = set_if (rq_TTL req \<noteq> 0) ''ttl'' (Itoa (rq_TTL req)) p
      in if rq_Priority req = 2
         then set_if (rq_Callback req \<noteq> '''') ''callback'' (rq_Callback req)
                (AList.update ''expire'' (Itoa (rq_Expire req))
                  (AList.update ''retry'' (Itoa (rq_Retry req)) p))
         else p)"

definition SendMessage ::
  "Client \<Rightarrow> remote \<Rightarrow> MessageRequest \<Rightarrow> exchange list \<Rightarrow> (string + api_body) \<times> exchange list" where
  "SendMessage c srv req log = doPost c srv ''/messages.json'' (SendMessage_params c req) log"

definition GetReceipt ::
  "Client \<Rightarrow> remote \<Rightarrow> string \<Rightarrow> exchange list \<Rightarrow> (string + api_body) \<times> exchange list" where
  "GetReceipt c srv receipt log =
     doGet c srv (''/receipts/'' @ receipt @ ''.json?token='' @ QueryEscape (token c)) log"

definition CancelReceipt ::
  "Client \<Rightarrow> remote \<Rightarrow> string \<Rightarrow> exchange list \<Rightarrow> (string + api_body) \<times> exchange list" where
  "CancelReceipt c srv receipt log =
     doPost c srv (''/receipts/'' @ receipt @ ''/cancel.json'')
       (AList.update ''token'' (token c) []) log"

text \<open>
  \<^verbatim>\<open>GetSounds\<close> turns the decoded map into a slice in the iteration order of a Go map,
  which is not fixed; the model returns the decoded body.
\<close>

definition GetSounds ::
  "Client \<Rightarrow> remote \<Rightarrow> exchange list \<Rightarrow> (string + api_body) \<times> exchange list" where
  "GetSounds c srv log = doGet c srv (''/sounds.json?token='' @ QueryEscape (token c)) log"

record ValidateRequest =
  vr_Token :: string
  vr_User :: string
  vr_Device :: string

definition ValidateUser_token :: "Client \<Rightarrow> ValidateRequest \<Rightarrow> string" where
  "ValidateUser_token c req = (if vr_Token req = '''' then token c else vr_Token req)"

definition ValidateUser ::
  "Client \<Rightarrow> remote \<Rightarrow> ValidateRequest \<Rightarrow> exchange list \<Rightarrow> (string + api_body) \<times> exchange list" where
  "ValidateUser c srv req log =
     doPost c srv ''/users/validate.json''
       (set_if (vr_Device req \<noteq> '''') ''device'' (vr_Device req)
         (AList.update ''user'' (vr_User req)
           (AList.update ''token'' (ValidateUser_token c req) []))) log"

definition GetGroup ::
  "Client \<Rightarrow> remote \<Rightarrow> string \<Rightarrow> exchange list \<Rightarrow> (string + api_body) \<times> exchange list" where
  "GetGroup c srv groupKey log =
     doGet c srv (''/groups/'' @ groupKey @ ''.json?token='' @ QueryEscape (token c)) log"

definition RenameGroup ::
  "Client \<Rightarrow> remote \<Rightarrow> string \<Rightarrow> string \<Rightarrow> exchange list \<Rightarrow> (string + api_body) \<times> exchange list" where
  "RenameGroup c srv groupKey name log =
     doPost c srv (''/groups/'' @ groupKey @ ''/rename.json'')
       (AList.update ''name'' name (AList.update ''token'' (token c) [])) log"

text \<open>The form shared by the remove, enable and disable calls.\<close>

definition member_params :: "Client \<Rightarrow> string \<Rightarrow> string \<Rightarrow> url_values" where
  "member_params c user device =
     set_if (device \<noteq> '''') ''device'' device
       (AList.update ''user'' user (AList.update ''token'' (token c) []))"

definition AddGroupUser ::
  "Client \<Rightarrow> remote \<Rightarrow> string \<Rightarrow> string \<Rightarrow> string \<Rightarrow> string \<Rightarrow> exchange list
     \<Rightarrow> (string + api_body) \<times> exchange list" where
  "AddGroupUser c srv groupKey user device memo log =
     doPost c srv (''/groups/'' @ groupKey @ ''/add_user.json'')
       (set_if (memo \<noteq> '''') ''memo'' memo (member_params c user device)) log"

definition RemoveGroupUser ::
  "Client \<Rightarrow> remote \<Rightarrow> string \<Rightarrow> string \<Rightarrow> string \<Rightarrow> exchange list
     \<Rightarrow> (string + api_body) \<times> exchange list" where
  "RemoveGroupUser c srv groupKey user device log =
     doPost c srv (''/groups/'' @ groupKey @ ''/delete_user.json'') (member_params c user device) log"

definition EnableGroupUser ::
  "Client \<Rightarrow> remote \<Rightarrow> string \<Rightarrow> string \<Rightarrow> string \<Rightarrow> exchange list
     \<Rightarrow> (string + api_body) \<times> exchange list" where
  "EnableGroupUser c srv groupKey user device log =
     doPost c srv (''/groups/'' @ groupKey @ ''/enable_user.json'') (member_params c user device) log"

definition DisableGroupUser ::
  "Client \<Rightarrow> remote \<Rightarrow> string \<Rightarrow> string \<Rightarrow> string \<Rightarrow> exchange list
     \<Rightarrow> (string + api_body) \<times> exchange list" where
  "DisableGroupUser c srv groupKey user device log =
     doPost c srv (''/groups/'' @ groupKey @ ''/disable_user.json'') (member_params c user device) log"

section \<open>The resources (\<^verbatim>\<open>internal/provider\<close>)\<close>

text \<open>
  A resource operation receives the decoded plan or state and a response that the
  framework created; it appends diagnostics to the response and sets or removes its
  state. \<open>State = None\<close> is a response with no resource in it. Decoding the plan or the
  state into the model struct (\<^verbatim>\<open>Plan.Get\<close>, \<^verbatim>\<open>State.Get\<close>) and storing the struct
  (\<^verbatim>\<open>State.Set\<close>) add no diagnostic, the struct having the fields of the schema. Only
  error diagnostics occur, each a summary and a detail; \<^verbatim>\<open>AddError\<close> skips a diagnostic
  the list already holds.
\<close>

type_synonym diagnostic = "string \<times> string"

record 's Response =
  Diagnostics :: "diagnostic list"
  State :: "'s option"

definition new_response :: "'s option \<Rightarrow> 's Response" where
  "new_response st = \<lparr>Diagnostics = [], State = st\<rparr>"

definition HasError :: "'s Response \<Rightarrow> bool" where
  "HasError resp = (Diagnostics resp \<noteq> [])"

definition AddError :: "'s Response \<Rightarrow> string \<Rightarrow> string \<Rightarrow> 's Response" where
  "AddError resp summary detail =
     (if (summary, detail) \<in> set (Diagnostics resp) then resp
      else resp\<lparr>Diagnostics := Diagnostics resp @ [(summary, detail)]\<rparr>)"

subsection \<open>The message resource\<close>

record MessageResourceModel =
  m_UserKey :: "string tfvalue"
  m_Message :: "string tfvalue"
  m_APIToken :: "string tfvalue"
  m_Title :: "string tfvalue"
  m_URL :: "string tfvalue"
  m_URLTitle :: "string tfvalue"
  m_Priority :: "int64 tfvalue"
  m_Sound :: "string tfvalue"
  m_Device :: "string tfvalue"
  m_Timestamp :: "int64 tfvalue"
  m_HTML :: "bool tfvalue"
  m_Monospace :: "bool tfvalue"
  m_TTL :: "int64 tfvalue"
  m_Retry :: "int64 tfvalue"
  m_Expire :: "int64 tfvalue"
  m_Callback :: "string tfvalue"
  m_Receipt :: "string tfvalue"
  m_RequestID :: "string tfvalue"

definition missing_emergency_fields :: diagnostic where
  "missing_emergency_fields =
     (''Missing Emergency Fields'',
      ''When priority is 2 (emergency), both retry and expire must be set.'')"

text \<open>The request as \<^verbatim>\<open>Create\<close> has built it when it reaches the test of the priority.\<close>

definition optional_fields :: "MessageResourceModel \<Rightarrow> MessageRequest" where
  "optional_fields data =
     (let msgReq = \<lparr>rq_Token = '''', rq_User = ValueString (m_UserKey data),
                     rq_Message = ValueString (m_Message data), rq_Title = '''', rq_URL = '''',
                     rq_URLTitle = '''', rq_Priority = 0, rq_Sound = '''', rq_Device = '''',
                     rq_Timestamp = 0, rq_HTML = 0, rq_Monospace = 0, rq_TTL = 0, rq_Retry = 0,
                     rq_Expire = 0, rq_Callback = ''''\<rparr>;
          msgReq = (if \<not> IsNull (m_APIToken data) \<and> \<not> IsUnknown (m_APIToken data)
                    then msgReq\<lparr>rq_Token := ValueString (m_APIToken data)\<rparr> else msgReq);
          msgReq = (if \<not> IsNull (m_Title data)
                    then msgReq\<lparr>rq_Title := ValueString (m_Title data)\<rparr> else msgReq);
          msgReq = (if \<not> IsNull (m_URL data)
                    then msgReq\<lparr>rq_URL := ValueString (m_URL data)\<rparr> else msgReq);
          msgReq = (if \<not> IsNull (m_URLTitle data)
                    then msgReq\<lparr>rq_URLTitle := ValueString (m_URLTitle data)\<rparr> else msgReq);
          msgReq = (if \<not> IsNull (m_Priority data)
                    then msgReq\<lparr>rq_Priority := ValueInt64 (m_Priority data)\<rparr> else msgReq);
          msgReq = (if \<not> IsNull (m_Sound data)
                    then msgReq\<lparr>rq_Sound := ValueString (m_Sound data)\<rparr> else msgReq);
          msgReq = (if \<not> IsNull (m_Device data)
                    then msgReq\<lparr>rq_Device := ValueString (m_Device data)\<rparr> else msgReq);
          msgReq = (if \<not> IsNull (m_Timestamp data)
                    then msgReq\<lparr>rq_Timestamp := ValueInt64 (m_Timestamp data)\<rparr> else msgReq);
          msgReq = (if \<not> IsNull (m_HTML data) \<and> ValueBool (m_HTML data)
                    then msgReq\<lparr>rq_HTML := 1\<rparr> else msgReq);
          msgReq = (if \<not> IsNull (m_Monospace data) \<and> ValueBool (m_Monospace data)
                    then msgReq\<lparr>rq_Monospace := 1\<rparr> else msgReq)
      in if \<not> IsNull (m_TTL data) then msgReq\<lparr>rq_TTL := ValueInt64 (m_TTL data)\<rparr> else msgReq)"

text \<open>The emergency fields, copied once retry and expire are known to be there.\<close>

definition emergency_fields :: "MessageResourceModel \<Rightarrow> MessageRequest \<Rightarrow> MessageRequest" where
  "emergency_fields data msgReq =
     (let msgReq = msgReq\<lparr>rq_Retry := ValueInt64 (m_Retry data)\<rparr>;
          msgReq = msgReq\<lparr>rq_Expire := ValueInt64 (m_Expire data)\<rparr>
      in if \<not> IsNull (m_Callback data)
         then msgReq\<lparr>rq_Callback := ValueString (m_Callback data)\<rparr> else msgReq)"

definition MessageResource_Create ::
  "Client \<Rightarrow> remote \<Rightarrow> MessageResourceModel \<Rightarrow> MessageResourceModel Response \<Rightarrow> exchange list
     \<Rightarrow> MessageResourceModel Response \<times> exchange list" where
  "MessageResource_Create c srv data resp log =
     (if HasError resp then (resp, log)
      else
        let msgReq = optional_fields data
        in if rq_Priority msgReq = 2 \<and> (IsNull (m_Retry data) \<or> IsNull (m_Expire data))
           then (AddError resp (fst missing_emergency_fields) (snd missing_emergency_fields), log)
           else
             let msgReq = (if rq_Priority msgReq = 2 then emergency_fields data msgReq else msgReq)
             in case SendMessage c srv msgReq log of
                  (Inl err, log') \<Rightarrow> (AddError resp ''Failed to send Pushover message'' err, log')
                | (Inr result, log') \<Rightarrow>
                    (resp\<lparr>State := Some (data\<lparr>m_Receipt := Known (Receipt result),
                                                m_RequestID := Known (Request result)\<rparr>)\<rparr>, log'))"

text \<open>Read, update and delete of a message do nothing.\<close>

definition MessageResource_Read ::
  "MessageResourceModel Response \<Rightarrow> exchange list \<Rightarrow> MessageResourceModel Response \<times> exchange list" where
  "MessageResource_Read resp log = (resp, log)"

subsection \<open>The group membership resource\<close>

record GroupUserResourceModel =
  g_GroupKey :: "string tfvalue"
  g_UserKey :: "string tfvalue"
  g_Device :: "string tfvalue"
  g_Memo :: "string tfvalue"
  g_Disabled :: "bool tfvalue"
  g_ID :: "string tfvalue"

definition compute_id :: "string \<Rightarrow> string \<Rightarrow> string \<Rightarrow> string" where
  "compute_id groupKey userKey device =
     (let id = groupKey @ ''/'' @ userKey
      in if device \<noteq> '''' then id @ ''/'' @ device else id)"

definition GroupUserResource_Create ::
  "Client \<Rightarrow> remote \<Rightarrow> GroupUserResourceModel \<Rightarrow> GroupUserResourceModel Response \<Rightarrow> exchange list
     \<Rightarrow> GroupUserResourceModel Response \<times> exchange list" where
  "GroupUserResource_Create c srv data resp log =
     (if HasError resp then (resp, log)
      else
        let groupKey = ValueString (g_GroupKey data);
            userKey = ValueString (g_UserKey data);
            device = ValueString (g_Device data);
            memo = ValueString (g_Memo data)
        in case AddGroupUser c srv groupKey userKey device memo log of
             (Inl err, log1) \<Rightarrow> (AddError resp ''Failed to add user to group'' err, log1)
           | (Inr _, log1) \<Rightarrow>
               let data = data\<lparr>g_ID := Known (compute_id groupKey userKey device)\<rparr>
               in if \<not> IsNull (g_Disabled data) \<and> ValueBool (g_Disabled data)
                  then (case DisableGroupUser c srv groupKey userKey device log1 of
                          (Inl err, log2) \<Rightarrow> (AddError resp ''Failed to disable group user'' err, log2)
                        | (Inr _, log2) \<Rightarrow> (resp\<lparr>State := Some data\<rparr>, log2))
                  else (resp\<lparr>State := Some data\<rparr>, log1))"

text \<open>
  The loop of \<^verbatim>\<open>Read\<close> over the listing: it stops at the first row that passes the test,
  copies the row's disabled flag and, when it is not empty, the row's memo.
\<close>

fun find_member ::
  "string \<Rightarrow> string \<Rightarrow> GroupMember list \<Rightarrow> GroupUserResourceModel \<Rightarrow> bool \<times> GroupUserResourceModel" where
  "find_member userKey device [] data = (False, data)"
| "find_member userKey device (member # rest) data =
     (if gm_User member = userKey \<and> (device = '''' \<or> gm_Device member = device)
      then (True, (data\<lparr>g_Disabled := Known (gm_Disabled member)\<rparr>)
                    \<lparr>g_Memo := (if gm_Memo member \<noteq> '''' then Known (gm_Memo member)
                                else g_Memo data)\<rparr>)
      else find_member userKey device rest data)"

definition GroupUserResource_Read ::
  "Client \<Rightarrow> remote \<Rightarrow> GroupUserResourceModel \<Rightarrow> GroupUserResourceModel Response \<Rightarrow> exchange list
     \<Rightarrow> GroupUserResourceModel Response \<times> exchange list" where
  "GroupUserResource_Read c srv data resp log =
     (if HasError resp then (resp, log)
      else
        let groupKey = ValueString (g_GroupKey data);
            userKey = ValueString (g_UserKey data);
            device = ValueString (g_Device data)
        in case GetGroup c srv groupKey log of
             (Inl err, log1) \<Rightarrow> (AddError resp ''Failed to read group'' err, log1)
           | (Inr groupResp, log1) \<Rightarrow>
               (case find_member userKey device (Users groupResp) data of
                  (False, _) \<Rightarrow> (resp\<lparr>State := None\<rparr>, log1)
                | (True, data') \<Rightarrow> (resp\<lparr>State := Some data'\<rparr>, log1)))"

text \<open>The second half of \<^verbatim>\<open>Update\<close>: the enable/disable toggle and the write of the state.\<close>

definition update_toggle ::
  "Client \<Rightarrow> remote \<Rightarrow> GroupUserResourceModel \<Rightarrow> GroupUserResourceModel
     \<Rightarrow> GroupUserResourceModel Response \<Rightarrow> exchange list
     \<Rightarrow> GroupUserResourceModel Response \<times> exchange list" where
  "update_toggle c srv data state resp log =
     (let groupKey = ValueString (g_GroupKey data);
          userKey = ValueString (g_UserKey data);
          device = ValueString (g_Device data)
      in if g_Disabled data \<noteq> g_Disabled state
         then (if ValueBool (g_Disabled data)
               then (case DisableGroupUser c srv groupKey userKey device log of
                       (Inl err, log') \<Rightarrow> (AddError resp ''Failed to disable group user'' err, log')
                     | (Inr _, log') \<Rightarrow> (resp\<lparr>State := Some data\<rparr>, log'))
               else (case EnableGroupUser c srv groupKey userKey device log of
                       (Inl err, log') \<Rightarrow> (AddError resp ''Failed to enable group user'' err, log')
                     | (Inr _, log') \<Rightarrow> (resp\<lparr>State := Some data\<rparr>, log')))
         else (resp\<lparr>State := Some data\<rparr>, log))"

definition GroupUserResource_Update ::
  "Client \<Rightarrow> remote \<Rightarrow> GroupUserResourceModel \<Rightarrow> GroupUserResourceModel
     \<Rightarrow> GroupUserResourceModel Response \<Rightarrow> exchange list
     \<Rightarrow> GroupUserResourceModel Response \<times> exchange list" where
  "GroupUserResource_Update c srv data state resp log =
     (if HasError resp then (resp, log)
      else
        let groupKey = ValueString (g_GroupKey data);
            userKey = ValueString (g_UserKey data);
            device = ValueString (g_Device data)
        in if g_Memo data \<noteq> g_Memo state
           then (case AddGroupUser c srv groupKey userKey device (ValueString (g_Memo data)) log of
                   (Inl err, log1) \<Rightarrow> (AddError resp ''Failed to update group user memo'' err, log1)
                 | (Inr _, log1) \<Rightarrow> update_toggle c srv data state resp log1)
           else update_toggle c srv data state resp log)"

definition GroupUserResource_Delete ::
  "Client \<Rightarrow> remote \<Rightarrow> GroupUserResourceModel \<Rightarrow> GroupUserResourceModel Response \<Rightarrow> exchange list
     \<Rightarrow> GroupUserResourceModel Response \<times> exchange list" where
  "GroupUserResource_Delete c srv data resp log =
     (if HasError resp then (resp, log)
      else
        case RemoveGroupUser c srv (ValueString (g_GroupKey data)) (ValueString (g_UserKey data))
               (ValueString (g_Device data)) log of
          (Inl err, log') \<Rightarrow> (AddError resp ''Failed to remove user from group'' err, log')
        | (Inr _, log') \<Rightarrow> (resp, log'))"

section \<open>Reading a run\<close>

text \<open>
  The exchanges an operation added to the log, and whether the client call behind an
  exchange returned an error.
\<close>

definition issued :: "exchange list \<Rightarrow> exchange list \<Rightarrow> exchange list" where
  "issued log log' = drop (length log) log'"

definition failed :: "exchange \<Rightarrow> bool" where
  "failed ex = isl (check_response (snd ex))"

text \<open>
  The token of the last request of a run, for a call that posts a form, and the address
  of the last request, for a call that carries the token in its query.
\<close>

definition token_sent :: "'a \<times> exchange list \<Rightarrow> string option" where
  "token_sent run = map_of (rq_form (fst (last (snd run)))) ''token''"

definition url_sent :: "'a \<times> exchange list \<Rightarrow> string" where
  "url_sent run = rq_url (fst (last (snd run)))"

subsection \<open>Concrete inputs\<close>

definition example_client :: Client where
  "example_client = \<lparr>token = ''provider_token'', baseURL = ''https://api.pushover.net/1''\<rparr>"

definition example_body :: api_body where
  "example_body = \<lparr>Status = 1, Request = ''req-1'', Errors = [], Receipt = '''', Name = '''',
     Users = [], Group = 0, Devices = [], Licenses = [], Sounds = []\<rparr>"

definition remote_ok :: remote where
  "remote_ok log req = Body example_body"

definition remote_down :: remote where
  "remote_down log req = SendingRequest ''connection refused''"

definition remote_second_call_rejected :: remote where
  "remote_second_call_rejected log req =
     (if length log = 0 then Body example_body
      else Body (example_body\<lparr>Status := 0, Errors := [''user is not a member of this group'']\<rparr>))"

definition remote_listing :: "GroupMember list \<Rightarrow> remote" where
  "remote_listing rows log req = Body (example_body\<lparr>Name := ''ops'', Users := rows\<rparr>)"

definition remote_with_receipt :: remote where
  "remote_with_receipt log req = Body (example_body\<lparr>Receipt := ''rcpt-1''\<rparr>)"

definition example_message :: MessageResourceModel where
  "example_message = \<lparr>m_UserKey = Known ''U1'', m_Message = Known ''disk full'', m_APIToken = Null,
     m_Title = Null, m_URL = Null, m_URLTitle = Null, m_Priority = Known 0, m_Sound = Null,
     m_Device = Null, m_Timestamp = Null, m_HTML = Null, m_Monospace = Null, m_TTL = Null,
     m_Retry = Null, m_Expire = Null, m_Callback = Null, m_Receipt = Unknown,
     m_RequestID = Unknown\<rparr>"

definition example_membership :: GroupUserResourceModel where
  "example_membership = \<lparr>g_GroupKey = Known ''G1'', g_UserKey = Known ''U1'', g_Device = Null,
     g_Memo = Known ''lead'', g_Disabled = Known False, g_ID = Unknown\<rparr>"

definition iphone_row :: GroupMember where
  "iphone_row = \<lparr>gm_User = ''U1'', gm_Device = ''iphone'', gm_Memo = '''', gm_Disabled = True\<rparr>"

definition android_row :: GroupMember where
  "android_row = \<lparr>gm_User = ''U1'', gm_Device = ''android'', gm_Memo = ''phone'', gm_Disabled = False\<rparr>"

section \<open>Facts about the model\<close>

lemma doPost_eq:
  "doPost c srv path params log =
     (check_response (srv log \<lparr>rq_method = POST, rq_url = baseURL c @ path, rq_form = params\<rparr>),
      log @ [(\<lparr>rq_method = POST, rq_url = baseURL c @ path, rq_form = params\<rparr>,
              srv log \<lparr>rq_method = POST, rq_url = baseURL c @ path, rq_form = params\<rparr>)])"
  by (simp add: doPost_def Let_def)

lemma doGet_eq:
  "doGet c srv path log =
     (check_response (srv log \<lparr>rq_method = GET, rq_url = baseURL c @ path, rq_form = []\<rparr>),
      log @ [(\<lparr>rq_method = GET, rq_url = baseURL c @ path, rq_form = []\<rparr>,
              srv log \<lparr>rq_method = GET, rq_url = baseURL c @ path, rq_form = []\<rparr>)])"
  by (simp add: doGet_def Let_def)

lemma issued_append [simp]: "issued log (log @ new) = new"
  by (simp add: issued_def)

lemma issued_self [simp]: "issued log log = []"
  by (simp add: issued_def)

lemma failed_iff: "failed (req, raw) = isl (check_response raw)"
  by (simp add: failed_def)

text \<open>One call of the client: the request it sends, what it returns, what it logs.\<close>

lemma AddGroupUser_call:
  "\<exists>req. rq_method req = POST
      \<and> rq_url req = baseURL c @ ''/groups/'' @ g @ ''/add_user.json''
      \<and> AddGroupUser c srv g u d m log = (check_response (srv log req), log @ [(req, srv log req)])"
  by (simp add: AddGroupUser_def doPost_eq)

lemma DisableGroupUser_call:
  "\<exists>req. rq_method req = POST
      \<and> rq_url req = baseURL c @ ''/groups/'' @ g @ ''/disable_user.json''
      \<and> DisableGroupUser c srv g u d log = (check_response (srv log req), log @ [(req, srv log req)])"
  by (simp add: DisableGroupUser_def doPost_eq)

lemma AddError_new [simp]:
  "AddError (new_response st) s d = \<lparr>Diagnostics = [(s, d)], State = st\<rparr>"
  by (simp add: AddError_def new_response_def)

lemma HasError_new [simp]: "\<not> HasError (new_response st)"
  by (simp add: HasError_def new_response_def)

lemma new_response_sel [simp]:
  "Diagnostics (new_response st) = []"
  "State (new_response st) = st"
  "Diagnostics (new_response st\<lparr>State := x\<rparr>) = []"
  by (simp_all add: new_response_def)

lemma optional_fields_priority:
  "rq_Priority (optional_fields data) = ValueInt64 (m_Priority data)"
  by (cases "m_Priority data") (simp_all add: optional_fields_def Let_def)

lemma priority_is_2: "(ValueInt64 p = 2) = (p = Known 2)"
  by (cases p) simp_all

lemma map_of_set_if_other: "k \<noteq> k' \<Longrightarrow> map_of (set_if b k v p) k' = map_of p k'"
  by (simp add: set_if_def update_conv')

lemma map_of_update_other: "k \<noteq> k' \<Longrightarrow> map_of (AList.update k v p) k' = map_of p k'"
  by (simp add: update_conv')

lemma map_of_update_same: "map_of (AList.update k v p) k = Some v"
  by (simp add: update_conv')

lemma SendMessage_params_token:
  "map_of (SendMessage_params c req) ''token'' = Some (SendMessage_token c req)"
  by (simp add: SendMessage_params_def Let_def map_of_set_if_other map_of_update_other
        map_of_update_same)

text \<open>Cutting an address, and escaping followed by unescaping.\<close>

lemma Cut_absent: "sep \<notin> set s \<Longrightarrow> Cut s sep = (s, None)"
  by (induction s) auto

lemma Cut_first: "sep \<notin> set s \<Longrightarrow> Cut (s @ sep # t) sep = (s, Some t)"
  by (induction s) auto

lemma RawQuery_append:
  assumes "CHR ''#'' \<notin> set p" and "CHR ''?'' \<notin> set p" and "CHR ''#'' \<notin> set q"
  shows "RawQuery (p @ CHR ''?'' # q) = Some q"
proof -
  have "CHR ''#'' \<notin> set (p @ CHR ''?'' # q)"
    using assms by simp
  then have "Cut (p @ CHR ''?'' # q) CHR ''#'' = (p @ CHR ''?'' # q, None)"
    by (rule Cut_absent)
  then show ?thesis
    using assms(2) by (simp add: RawQuery_def Cut_first)
qed

lemma of_char_lt_256: "(of_char c :: nat) < 256"
  by (cases c) simp

lemma nibbles: "(of_char c :: nat) div 16 < 16" "(of_char c :: nat) mod 16 < 16"
proof -
  have "(of_char c :: nat) < 16 * 16"
    using of_char_lt_256 [of c] by simp
  then show "(of_char c :: nat) div 16 < 16"
    by (rule less_mult_imp_div_less)
  show "(of_char c :: nat) mod 16 < 16"
    by simp
qed

lemma of_char_upperhex:
  "d < 16 \<Longrightarrow> (of_char (upperhex d) :: nat) = (if d < 10 then 48 + d else 55 + d)"
  by (simp add: upperhex_def)

lemma ishex_upperhex: "d < 16 \<Longrightarrow> ishex (upperhex d)"
  by (auto simp: ishex_def of_char_upperhex Let_def)

lemma unhex_upperhex: "d < 16 \<Longrightarrow> unhex (upperhex d) = d"
  by (auto simp: unhex_def of_char_upperhex Let_def)

lemma upperhex_not_hash: "d < 16 \<Longrightarrow> upperhex d \<noteq> CHR ''#''"
proof
  assume "d < 16" and "upperhex d = CHR ''#''"
  then have "(of_char (upperhex d) :: nat) = of_char CHR ''#''" by simp
  with \<open>d < 16\<close> show False by (simp add: of_char_upperhex split: if_splits)
qed

lemma shouldEscape_special:
  "shouldEscape CHR ''#''" "shouldEscape CHR ''%''" "shouldEscape CHR ''+''" "shouldEscape CHR '' ''"
  by (simp_all add: shouldEscape_def)

lemma escape_byte_no_hash: "CHR ''#'' \<notin> set (escape_byte c)"
proof (cases "shouldEscape c")
  case False
  then have "c \<noteq> CHR ''#''"
    using shouldEscape_special(1) by auto
  with False show ?thesis by (simp add: escape_byte_def)
next
  case True
  have "upperhex ((of_char c :: nat) div 16) \<noteq> CHR ''#''"
       "upperhex ((of_char c :: nat) mod 16) \<noteq> CHR ''#''"
    by (rule upperhex_not_hash, rule nibbles)+
  with True show ?thesis
    by (auto simp: escape_byte_def)
qed

lemma QueryEscape_no_hash: "CHR ''#'' \<notin> set (QueryEscape s)"
  by (simp add: QueryEscape_def escape_byte_no_hash)

lemma join_nibbles: "char_of ((of_char c :: nat) div 16 * 16 + of_char c mod 16) = c"
  by simp

lemma QueryUnescape_escape_byte:
  "QueryUnescape (escape_byte c @ rest) = map_option ((#) c) (QueryUnescape rest)"
proof (cases "shouldEscape c")
  case False
  then have "c \<noteq> CHR ''%''" "c \<noteq> CHR ''+''"
    using shouldEscape_special by auto
  with False show ?thesis by (simp add: escape_byte_def)
next
  case True
  show ?thesis
  proof (cases "c = CHR '' ''")
    case space: True
    then show ?thesis by (simp add: escape_byte_def shouldEscape_special)
  next
    case other: False
    have "escape_byte c = [CHR ''%'', upperhex ((of_char c :: nat) div 16),
                            upperhex ((of_char c :: nat) mod 16)]"
      using True other by (simp add: escape_byte_def)
    then show ?thesis
      by (simp add: ishex_upperhex unhex_upperhex nibbles join_nibbles)
  qed
qed

lemma QueryUnescape_QueryEscape: "QueryUnescape (QueryEscape s) = Some s"
  by (induction s) (simp_all add: QueryEscape_def QueryUnescape_escape_byte)

text \<open>The raw query of an address that ends in the token built by a reading call.\<close>

lemma RawQuery_token:
  assumes "CHR ''#'' \<notin> set p" and "CHR ''?'' \<notin> set p"
  shows "RawQuery (p @ ''?token='' @ QueryEscape t) = Some (''token='' @ QueryEscape t)"
proof -
  have "CHR ''#'' \<notin> set (''token='' @ QueryEscape t)"
    by (simp add: QueryEscape_no_hash)
  from RawQuery_append [OF assms this] show ?thesis by simp
qed

text \<open>The loop of the read, as a search for the first row that passes its test.\<close>

lemma find_member_found:
  "fst (find_member u d rows data)
     = (\<exists>row\<in>set rows. gm_User row = u \<and> (d = '''' \<or> gm_Device row = d))"
  by (induction rows) auto

lemma find_member_first:
  "find_member u d rows data =
     (case find (\<lambda>m. gm_User m = u \<and> (d = '''' \<or> gm_Device m = d)) rows of
        None \<Rightarrow> (False, data)
      | Some m \<Rightarrow> (True, data\<lparr>g_Disabled := Known (gm_Disabled m),
                               g_Memo := (if gm_Memo m \<noteq> '''' then Known (gm_Memo m) else g_Memo data)\<rparr>))"
  by (induction rows) auto

lemma read_listed:
  assumes "fst (GetGroup c srv (ValueString (g_GroupKey data)) log) = Inr body"
  shows "fst (GroupUserResource_Read c srv data (new_response st) log) =
     (case find_member (ValueString (g_UserKey data)) (ValueString (g_Device data)) (Users body) data of
        (False, _) \<Rightarrow> \<lparr>Diagnostics = [], State = None\<rparr>
      | (True, data') \<Rightarrow> \<lparr>Diagnostics = [], State = Some data'\<rparr>)"
  using assms
  by (auto simp: GroupUserResource_Read_def Let_def new_response_def HasError_def
           split: prod.splits sum.splits bool.splits)

lemma read_not_listed:
  assumes "fst (GetGroup c srv (ValueString (g_GroupKey data)) log) = Inl e"
  shows "fst (GroupUserResource_Read c srv data (new_response st) log)
           = \<lparr>Diagnostics = [(''Failed to read group'', e)], State = st\<rparr>"
  using assms
  by (auto simp: GroupUserResource_Read_def Let_def split: prod.splits sum.splits)

text \<open>The definitions that a run on a concrete input unfolds.\<close>

lemmas run_defs = GroupUserResource_Create_def GroupUserResource_Read_def GroupUserResource_Update_def
  update_toggle_def AddGroupUser_def DisableGroupUser_def EnableGroupUser_def GetGroup_def
  doPost_eq doGet_eq member_params_def set_if_def compute_id_def example_client_def example_body_def
  example_membership_def remote_ok_def remote_down_def remote_second_call_rejected_def
  remote_listing_def iphone_row_def android_row_def failed_def issued_def Let_def

lemmas msg_defs = MessageResource_Create_def SendMessage_def doPost_eq optional_fields_def
  emergency_fields_def example_message_def example_client_def example_body_def remote_ok_def
  remote_with_receipt_def Let_def

section \<open>Message create: the emergency fields\<close>

text \<open>
  C1. Creating a message returns the diagnostic "Missing Emergency Fields" exactly when
  the priority is 2 and retry or expire is null. When it does, that diagnostic is the
  only one, the state is as it was and the log has no new exchange: \<^verbatim>\<open>SendMessage\<close> was
  not called. With any other priority the diagnostic does not occur.
\<close>

theorem message_create_missing_emergency_fields:
  "((missing_emergency_fields \<in> set (Diagnostics (fst (MessageResource_Create c srv data (new_response st) log))))
      = (m_Priority data = Known 2 \<and> (IsNull (m_Retry data) \<or> IsNull (m_Expire data))))
   \<and> (m_Priority data = Known 2 \<and> (IsNull (m_Retry data) \<or> IsNull (m_Expire data)) \<longrightarrow>
        MessageResource_Create c srv data (new_response st) log
          = (\<lparr>Diagnostics = [missing_emergency_fields], State = st\<rparr>, log))
   \<and> (m_Priority data \<noteq> Known 2 \<longrightarrow>
        missing_emergency_fields \<notin> set (Diagnostics (fst (MessageResource_Create c srv data (new_response st) log))))"
  by (auto simp: MessageResource_Create_def Let_def optional_fields_priority priority_is_2
        missing_emergency_fields_def SendMessage_def doPost_eq
        split: prod.splits sum.splits)

theorem message_create_missing_emergency_fields_witness:
  "m_Priority (example_message\<lparr>m_Priority := Known 2, m_Expire := Known 3600\<rparr>) = Known 2
   \<and> IsNull (m_Retry (example_message\<lparr>m_Priority := Known 2, m_Expire := Known 3600\<rparr>))
   \<and> MessageResource_Create example_client remote_ok
        (example_message\<lparr>m_Priority := Known 2, m_Expire := Known 3600\<rparr>) (new_response None) []
       = (\<lparr>Diagnostics = [missing_emergency_fields], State = None\<rparr>, [])"
  using message_create_missing_emergency_fields
    [of example_client remote_ok "example_message\<lparr>m_Priority := Known 2, m_Expire := Known 3600\<rparr>"
        None "[]"]
  by (simp add: example_message_def)

section \<open>Group membership read: which row is the entity's\<close>

text \<open>
  C2, as stated, fails. The stored membership has no device and the listing holds one
  row of the member, for the device "iphone". The read takes that row as the entity's:
  it keeps the entity and copies the row's disabled flag.
\<close>

theorem group_read_device_counterexample:
  "ValueString (g_Device example_membership) = ''''
   \<and> gm_Device iphone_row = ''iphone''
   \<and> fst (GroupUserResource_Read example_client (remote_listing [iphone_row]) example_membership
            (new_response (Some example_membership)) [])
       = \<lparr>Diagnostics = [], State = Some (example_membership\<lparr>g_Disabled := Known True\<rparr>)\<rparr>"
  by (simp add: run_defs new_response_def HasError_def)

text \<open>
  C2, amended. When the listing call succeeds, the read keeps the entity exactly when
  some row is accepted, and a row is accepted only when its member key is the stored
  member key and its device passes: with no stored device (an empty one) every device
  of the row passes, with a stored device only the identical device does.
\<close>

theorem group_read_match:
  assumes "fst (GetGroup c srv (ValueString (g_GroupKey data)) log) = Inr body"
  shows "(ValueString (g_Device data) = '''' \<longrightarrow>
            (State (fst (GroupUserResource_Read c srv data (new_response st) log)) \<noteq> None)
              = (\<exists>row\<in>set (Users body). gm_User row = ValueString (g_UserKey data)))
       \<and> (ValueString (g_Device data) \<noteq> '''' \<longrightarrow>
            (State (fst (GroupUserResource_Read c srv data (new_response st) log)) \<noteq> None)
              = (\<exists>row\<in>set (Users body). gm_User row = ValueString (g_UserKey data)
                    \<and> gm_Device row = ValueString (g_Device data)))"
  using find_member_found [of "ValueString (g_UserKey data)" "ValueString (g_Device data)" "Users body" data]
  by (auto simp: read_listed [OF assms] split: prod.splits bool.splits)

theorem group_read_match_witness:
  "fst (GetGroup example_client (remote_listing [iphone_row]) (ValueString (g_GroupKey example_membership)) [])
      = Inr (example_body\<lparr>Name := ''ops'', Users := [iphone_row]\<rparr>)
   \<and> ValueString (g_Device example_membership) = ''''
   \<and> State (fst (GroupUserResource_Read example_client (remote_listing [iphone_row]) example_membership
          (new_response (Some example_membership)) [])) \<noteq> None"
  using group_read_match [where c = example_client and srv = "remote_listing [iphone_row]"
     and data = example_membership and log = "[]" and st = "Some example_membership"
     and body = "example_body\<lparr>Name := ''ops'', Users := [iphone_row]\<rparr>"]
  by (simp add: run_defs)

section \<open>Group membership read: an entity the listing does not hold\<close>

text \<open>
  C3, as stated, fails. The stored membership is (U1, no device); the listing call
  succeeds and its only row is (U1, android), so no row has the natural key of the
  entity. The read does not remove the entity: it stores it with the memo of that row.
\<close>

theorem group_read_absent_counterexample:
  "ValueString (g_UserKey example_membership) = ''U1''
   \<and> ValueString (g_Device example_membership) = ''''
   \<and> gm_Device android_row = ''android''
   \<and> fst (GroupUserResource_Read example_client (remote_listing [android_row]) example_membership
            (new_response (Some example_membership)) [])
       = \<lparr>Diagnostics = [], State = Some (example_membership\<lparr>g_Memo := Known ''phone''\<rparr>)\<rparr>"
  by (simp add: run_defs new_response_def HasError_def)

text \<open>
  C3, amended. When the listing call succeeds and no row has the stored member key
  together with a device that passes (any device when the stored device is empty, the
  identical device otherwise), the read removes the entity from the state and reports
  no error. The read reports an error exactly when the listing call fails.
\<close>

theorem group_read_absent:
  "(fst (GetGroup c srv (ValueString (g_GroupKey data)) log) = Inr body
      \<and> (\<forall>row\<in>set (Users body). \<not> (gm_User row = ValueString (g_UserKey data)
             \<and> (ValueString (g_Device data) = '''' \<or> gm_Device row = ValueString (g_Device data))))
      \<longrightarrow> fst (GroupUserResource_Read c srv data (new_response st) log)
            = \<lparr>Diagnostics = [], State = None\<rparr>)
   \<and> ((Diagnostics (fst (GroupUserResource_Read c srv data (new_response st) log)) \<noteq> [])
        = isl (fst (GetGroup c srv (ValueString (g_GroupKey data)) log)))"
proof (intro conjI impI)
  assume a: "fst (GetGroup c srv (ValueString (g_GroupKey data)) log) = Inr body
      \<and> (\<forall>row\<in>set (Users body). \<not> (gm_User row = ValueString (g_UserKey data)
             \<and> (ValueString (g_Device data) = '''' \<or> gm_Device row = ValueString (g_Device data))))"
  then have "\<not> fst (find_member (ValueString (g_UserKey data)) (ValueString (g_Device data))
                      (Users body) data)"
    by (simp add: find_member_found)
  with a show "fst (GroupUserResource_Read c srv data (new_response st) log)
                 = \<lparr>Diagnostics = [], State = None\<rparr>"
    by (auto simp: read_listed split: prod.splits bool.splits)
next
  show "(Diagnostics (fst (GroupUserResource_Read c srv data (new_response st) log)) \<noteq> [])
        = isl (fst (GetGroup c srv (ValueString (g_GroupKey data)) log))"
  proof (cases "fst (GetGroup c srv (ValueString (g_GroupKey data)) log)")
    case (Inl e)
    then show ?thesis by (simp add: read_not_listed)
  next
    case (Inr listing)
    then show ?thesis by (simp add: read_listed split: prod.splits bool.splits)
  qed
qed

theorem group_read_absent_witness:
  "fst (GetGroup example_client (remote_listing [iphone_row, android_row])
          (ValueString (g_GroupKey (example_membership\<lparr>g_Device := Known ''ipad''\<rparr>))) [])
      = Inr (example_body\<lparr>Name := ''ops'', Users := [iphone_row, android_row]\<rparr>)
   \<and> gm_Device iphone_row \<noteq> ''ipad'' \<and> gm_Device android_row \<noteq> ''ipad''
   \<and> fst (GroupUserResource_Read example_client (remote_listing [iphone_row, android_row])
          (example_membership\<lparr>g_Device := Known ''ipad''\<rparr>)
          (new_response (Some (example_membership\<lparr>g_Device := Known ''ipad''\<rparr>))) [])
       = \<lparr>Diagnostics = [], State = None\<rparr>
   \<and> isl (fst (GetGroup example_client remote_down (ValueString (g_GroupKey example_membership)) []))
   \<and> Diagnostics (fst (GroupUserResource_Read example_client remote_down example_membership
          (new_response (Some example_membership)) [])) \<noteq> []"
  using group_read_absent [where c = example_client and srv = "remote_listing [iphone_row, android_row]"
     and data = "example_membership\<lparr>g_Device := Known ''ipad''\<rparr>" and log = "[]"
     and st = "Some (example_membership\<lparr>g_Device := Known ''ipad''\<rparr>)"
     and body = "example_body\<lparr>Name := ''ops'', Users := [iphone_row, android_row]\<rparr>"]
    group_read_absent [where c = example_client and srv = remote_down
     and data = example_membership and log = "[]" and st = "Some example_membership"]
  by (simp add: run_defs)

section \<open>Group membership create: add, then disable\<close>

text \<open>
  C4. A create with disabled = true sends the add-member request first. When that call
  fails nothing else is sent and the diagnostic is "Failed to add user to group". When
  it succeeds the disable-member request is sent second, and nothing after it. When the
  second call fails, the diagnostic is "Failed to disable group user" with the error of
  that call, and no add-member diagnostic is reported. A create reports "Failed to
  disable group user" only in a run whose add-member call succeeded, so the report says
  that the member was added.
\<close>

theorem group_create_disabled_sequence:
  assumes "g_Disabled data = Known True"
  shows "case GroupUserResource_Create c srv data (new_response st) log of (resp', log') \<Rightarrow>
     log' = log @ issued log log'
   \<and> issued log log' \<noteq> []
   \<and> rq_url (fst (hd (issued log log')))
        = baseURL c @ ''/groups/'' @ ValueString (g_GroupKey data) @ ''/add_user.json''
   \<and> (failed (hd (issued log log')) \<longrightarrow>
         length (issued log log') = 1
       \<and> (\<exists>e. Diagnostics resp' = [(''Failed to add user to group'', e)]))
   \<and> (\<not> failed (hd (issued log log')) \<longrightarrow>
         length (issued log log') = 2
       \<and> rq_url (fst (issued log log' ! 1))
            = baseURL c @ ''/groups/'' @ ValueString (g_GroupKey data) @ ''/disable_user.json'')
   \<and> (\<not> failed (hd (issued log log')) \<and> failed (issued log log' ! 1) \<longrightarrow>
         (\<exists>e. check_response (snd (issued log log' ! 1)) = Inl e
            \<and> Diagnostics resp' = [(''Failed to disable group user'', e)])
       \<and> (\<forall>e. (''Failed to add user to group'', e) \<notin> set (Diagnostics resp')))
   \<and> ((\<exists>e. (''Failed to disable group user'', e) \<in> set (Diagnostics resp')) \<longrightarrow>
         \<not> failed (hd (issued log log')))"
proof -
  obtain r1 where r1: "rq_url r1 = baseURL c @ ''/groups/'' @ ValueString (g_GroupKey data) @ ''/add_user.json''"
    and add: "AddGroupUser c srv (ValueString (g_GroupKey data)) (ValueString (g_UserKey data))
                (ValueString (g_Device data)) (ValueString (g_Memo data)) log
              = (check_response (srv log r1), log @ [(r1, srv log r1)])"
    using AddGroupUser_call by blast
  obtain r2 where r2: "rq_url r2 = baseURL c @ ''/groups/'' @ ValueString (g_GroupKey data) @ ''/disable_user.json''"
    and dis: "DisableGroupUser c srv (ValueString (g_GroupKey data)) (ValueString (g_UserKey data))
                (ValueString (g_Device data)) (log @ [(r1, srv log r1)])
              = (check_response (srv (log @ [(r1, srv log r1)]) r2),
                 (log @ [(r1, srv log r1)]) @ [(r2, srv (log @ [(r1, srv log r1)]) r2)])"
    using DisableGroupUser_call by blast
  show ?thesis
  proof (cases "check_response (srv log r1)")
    case (Inl e)
    then show ?thesis
      using assms r1 by (simp add: GroupUserResource_Create_def add failed_iff)
  next
    case ok1: (Inr b1)
    show ?thesis
    proof (cases "check_response (srv (log @ [(r1, srv log r1)]) r2)")
      case (Inl e)
      then show ?thesis
        using assms r1 r2 ok1 by (simp add: GroupUserResource_Create_def add dis failed_iff)
    next
      case (Inr b2)
      then show ?thesis
        using assms r1 r2 ok1 by (simp add: GroupUserResource_Create_def add dis failed_iff)
    qed
  qed
qed

theorem group_create_disabled_sequence_witness:
  "g_Disabled (example_membership\<lparr>g_Disabled := Known True\<rparr>) = Known True
   \<and> fst (GroupUserResource_Create example_client remote_second_call_rejected
        (example_membership\<lparr>g_Disabled := Known True\<rparr>) (new_response None) [])
       = \<lparr>Diagnostics = [(''Failed to disable group user'',
                           ''pushover API error: user is not a member of this group'')],
          State = None\<rparr>
   \<and> map (rq_url \<circ> fst) (snd (GroupUserResource_Create example_client remote_second_call_rejected
        (example_membership\<lparr>g_Disabled := Known True\<rparr>) (new_response None) []))
       = [''https://api.pushover.net/1/groups/G1/add_user.json'',
          ''https://api.pushover.net/1/groups/G1/disable_user.json'']"
  using group_create_disabled_sequence
    [where data = "example_membership\<lparr>g_Disabled := Known True\<rparr>" and c = example_client
       and srv = remote_second_call_rejected and st = None and log = "[]"]
  by (simp add: run_defs)

section \<open>Group membership create: the identifier\<close>

text \<open>
  C5. A create that reports no error stores an identifier: the group key, "/", the
  member key and, when the device is not empty, "/" and the device. With no device the
  identifier of (G1, U1) is "G1/U1"; with the device "iphone" it is "G1/U1/iphone".
\<close>

theorem group_create_identifier:
  assumes "GroupUserResource_Create c srv data (new_response st) log = (resp', log')"
      and "Diagnostics resp' = []"
  shows "\<exists>s. State resp' = Some s
      \<and> g_ID s = Known (ValueString (g_GroupKey data) @ ''/'' @ ValueString (g_UserKey data)
                  @ (if ValueString (g_Device data) = '''' then ''''
                     else ''/'' @ ValueString (g_Device data)))"
  using assms
  by (auto simp: GroupUserResource_Create_def Let_def compute_id_def
           split: prod.splits sum.splits if_splits)

theorem group_create_identifier_witness:
  "Diagnostics (fst (GroupUserResource_Create example_client remote_ok
       (example_membership\<lparr>g_Device := Known ''iphone''\<rparr>) (new_response None) [])) = []
   \<and> map_option g_ID (State (fst (GroupUserResource_Create example_client remote_ok
       (example_membership\<lparr>g_Device := Known ''iphone''\<rparr>) (new_response None) [])))
       = Some (Known ''G1/U1/iphone'')
   \<and> Diagnostics (fst (GroupUserResource_Create example_client remote_ok
       example_membership (new_response None) [])) = []
   \<and> map_option g_ID (State (fst (GroupUserResource_Create example_client remote_ok
       example_membership (new_response None) [])))
       = Some (Known ''G1/U1'')"
  using group_create_identifier
    [of example_client remote_ok "example_membership\<lparr>g_Device := Known ''iphone''\<rparr>" None "[]"
        "fst (GroupUserResource_Create example_client remote_ok
           (example_membership\<lparr>g_Device := Known ''iphone''\<rparr>) (new_response None) [])"
        "snd (GroupUserResource_Create example_client remote_ok
           (example_membership\<lparr>g_Device := Known ''iphone''\<rparr>) (new_response None) [])"]
    group_create_identifier
    [of example_client remote_ok example_membership None "[]"
        "fst (GroupUserResource_Create example_client remote_ok
           example_membership (new_response None) [])"
        "snd (GroupUserResource_Create example_client remote_ok
           example_membership (new_response None) [])"]
  by (simp add: run_defs)

section \<open>Group membership update: the disabled flag alone\<close>

text \<open>
  C6. When the plan is the prior state with another disabled flag, the update sends
  exactly one request: the disable-member request when the new flag is true, the
  enable-member request when it is not. It sends no add-member request.
\<close>

theorem group_update_disabled_only:
  assumes "data = state\<lparr>g_Disabled := d\<rparr>" and "d \<noteq> g_Disabled state"
  shows "map (\<lambda>ex. (rq_method (fst ex), rq_url (fst ex)))
           (issued log (snd (GroupUserResource_Update c srv data state (new_response st) log)))
         = [(POST, baseURL c @ ''/groups/'' @ ValueString (g_GroupKey data)
                     @ (if ValueBool d then ''/disable_user.json'' else ''/enable_user.json''))]
       \<and> (\<forall>ex\<in>set (issued log (snd (GroupUserResource_Update c srv data state (new_response st) log))).
             rq_url (fst ex) \<noteq> baseURL c @ ''/groups/'' @ ValueString (g_GroupKey data) @ ''/add_user.json'')"
  using assms
  by (auto simp: GroupUserResource_Update_def update_toggle_def DisableGroupUser_def EnableGroupUser_def
        doPost_eq Let_def split: sum.splits)

theorem group_update_disabled_only_witness:
  "example_membership\<lparr>g_Disabled := Known True\<rparr> = example_membership\<lparr>g_Disabled := Known True\<rparr>
   \<and> Known True \<noteq> g_Disabled example_membership
   \<and> map (\<lambda>ex. (rq_method (fst ex), rq_url (fst ex)))
       (snd (GroupUserResource_Update example_client remote_ok
          (example_membership\<lparr>g_Disabled := Known True\<rparr>) example_membership
          (new_response (Some example_membership)) []))
      = [(POST, ''https://api.pushover.net/1/groups/G1/disable_user.json'')]"
  using group_update_disabled_only [where c = example_client and srv = remote_ok
     and data = "example_membership\<lparr>g_Disabled := Known True\<rparr>" and state = example_membership
     and d = "Known True" and log = "[]" and st = "Some example_membership"]
  by (simp add: run_defs)

section \<open>Group membership read: what is copied from the row\<close>

text \<open>
  C7. When the listing call succeeds and the read finds a row (the first row that passes
  its test), the stored entity is the prior one with the disabled flag of the row and,
  when the memo of the row is not empty, the memo of the row. When the memo of the row
  is empty the stored memo stays. No other field changes.
\<close>

theorem group_read_copies_row:
  assumes "fst (GetGroup c srv (ValueString (g_GroupKey data)) log) = Inr body"
      and "find (\<lambda>member. gm_User member = ValueString (g_UserKey data)
                  \<and> (ValueString (g_Device data) = '''' \<or> gm_Device member = ValueString (g_Device data)))
             (Users body) = Some row"
  shows "State (fst (GroupUserResource_Read c srv data (new_response st) log))
           = Some (data\<lparr>g_Disabled := Known (gm_Disabled row),
                        g_Memo := (if gm_Memo row = '''' then g_Memo data else Known (gm_Memo row))\<rparr>)"
  using assms(2)
  by (simp add: read_listed [OF assms(1)] find_member_first)

theorem group_read_copies_row_witness:
  "fst (GetGroup example_client (remote_listing [iphone_row]) (ValueString (g_GroupKey example_membership)) [])
      = Inr (example_body\<lparr>Name := ''ops'', Users := [iphone_row]\<rparr>)
   \<and> gm_Memo iphone_row = ''''
   \<and> State (fst (GroupUserResource_Read example_client (remote_listing [iphone_row]) example_membership
          (new_response (Some example_membership)) []))
       = Some (example_membership\<lparr>g_Disabled := Known True, g_Memo := Known ''lead''\<rparr>)"
  using group_read_copies_row [where c = example_client and srv = "remote_listing [iphone_row]"
     and data = example_membership and log = "[]" and st = "Some example_membership"
     and body = "example_body\<lparr>Name := ''ops'', Users := [iphone_row]\<rparr>" and row = iphone_row]
  by (simp add: run_defs)

section \<open>Message create: what is recorded\<close>

text \<open>
  C8, as stated, fails. A message of priority 0 is sent and the response carries a
  receipt; the create stores that receipt.
\<close>

theorem message_create_receipt_counterexample:
  "m_Priority example_message = Known 0
   \<and> map_option m_Receipt (State (fst (MessageResource_Create example_client remote_with_receipt
        example_message (new_response None) []))) = Some (Known ''rcpt-1'')"
  by (simp add: msg_defs)

text \<open>
  C8, amended. When the send of a create succeeds, the create reports no error and
  stores the plan with the request identifier of the response and with the receipt of
  the response, whatever the priority (the receipt is the empty string when the response
  carries none).
\<close>

theorem message_create_records:
  assumes "MessageResource_Create c srv data (new_response st) log = (resp', log')"
      and "log' = log @ [(req, Body b)]" and "Status b = 1"
  shows "resp' = \<lparr>Diagnostics = [],
                  State = Some (data\<lparr>m_Receipt := Known (Receipt b), m_RequestID := Known (Request b)\<rparr>)\<rparr>"
  using assms
  by (auto simp: MessageResource_Create_def SendMessage_def doPost_eq Let_def new_response_def HasError_def
           split: if_splits sum.splits)

theorem message_create_records_witness:
  "snd (MessageResource_Create example_client remote_with_receipt
          (example_message\<lparr>m_Priority := Known 1\<rparr>) (new_response None) [])
     = [] @ [(fst (hd (snd (MessageResource_Create example_client remote_with_receipt
                (example_message\<lparr>m_Priority := Known 1\<rparr>) (new_response None) []))),
              Body (example_body\<lparr>Receipt := ''rcpt-1''\<rparr>))]
   \<and> Status (example_body\<lparr>Receipt := ''rcpt-1''\<rparr>) = 1
   \<and> fst (MessageResource_Create example_client remote_with_receipt
          (example_message\<lparr>m_Priority := Known 1\<rparr>) (new_response None) [])
     = \<lparr>Diagnostics = [],
        State = Some (example_message\<lparr>m_Priority := Known 1, m_Receipt := Known ''rcpt-1'',
                                       m_RequestID := Known ''req-1''\<rparr>)\<rparr>"
  using message_create_records [where c = example_client and srv = remote_with_receipt
     and data = "example_message\<lparr>m_Priority := Known 1\<rparr>" and st = None and log = "[]"
     and resp' = "fst (MessageResource_Create example_client remote_with_receipt
          (example_message\<lparr>m_Priority := Known 1\<rparr>) (new_response None) [])"
     and log' = "snd (MessageResource_Create example_client remote_with_receipt
          (example_message\<lparr>m_Priority := Known 1\<rparr>) (new_response None) [])"
     and req = "fst (hd (snd (MessageResource_Create example_client remote_with_receipt
                (example_message\<lparr>m_Priority := Known 1\<rparr>) (new_response None) [])))"
     and b = "example_body\<lparr>Receipt := ''rcpt-1''\<rparr>"]
  by (simp add: msg_defs new_response_def HasError_def)

section \<open>The token of a call\<close>

text \<open>
  C9, as stated, fails. The group calls take a group key, a member key, a device and a
  memo, and no token. Whatever these are, here the string "override_token" in every
  place, the token sent is the one of the client.
\<close>

theorem group_call_token_counterexample:
  "token_sent (AddGroupUser example_client remote_ok ''override_token'' ''override_token''
                 ''override_token'' ''override_token'' []) = Some ''provider_token''
   \<and> token_sent (DisableGroupUser example_client remote_ok ''override_token'' ''override_token''
                 ''override_token'' []) = Some ''provider_token''"
  by (simp add: token_sent_def AddGroupUser_def DisableGroupUser_def doPost_eq member_params_def
        set_if_def example_client_def)

text \<open>
  C9, amended. Sending a message and validating a recipient post as token the token of
  the request when it is not empty and the token of the client otherwise. Adding,
  removing, enabling and disabling a group member, renaming a group and cancelling a
  receipt always post the token of the client: they take no token of their own. Reading
  a group, reading a receipt and listing the sounds take no token either: they build
  the address from the base address, the path with the group key or the receipt put in
  as it is, and "?token=" with the escaped token of the client, which unescapes to that
  token. When the base address has no "?" and no "#", the raw query of the address for
  the sounds is exactly "token=" and the escaped token of the client, and so is the one
  for a group or a receipt whose key has no "?" and no "#". A key with one of them can
  lose or replace the token of the client: for the group key "G#1" the address has no
  query, and for the group key "G1.json?token=other_token&x=" its query starts with
  "token=other_token".
\<close>

theorem client_token:
  "token_sent (SendMessage c srv req log) = Some (if rq_Token req = '''' then token c else rq_Token req)
   \<and> token_sent (ValidateUser c srv vreq log) = Some (if vr_Token vreq = '''' then token c else vr_Token vreq)
   \<and> token_sent (AddGroupUser c srv groupKey user device memo log) = Some (token c)
   \<and> token_sent (RemoveGroupUser c srv groupKey user device log) = Some (token c)
   \<and> token_sent (EnableGroupUser c srv groupKey user device log) = Some (token c)
   \<and> token_sent (DisableGroupUser c srv groupKey user device log) = Some (token c)
   \<and> token_sent (RenameGroup c srv groupKey name log) = Some (token c)
   \<and> token_sent (CancelReceipt c srv receipt log) = Some (token c)
   \<and> url_sent (GetGroup c srv groupKey log)
        = baseURL c @ ''/groups/'' @ groupKey @ ''.json?token='' @ QueryEscape (token c)
   \<and> url_sent (GetReceipt c srv receipt log)
        = baseURL c @ ''/receipts/'' @ receipt @ ''.json?token='' @ QueryEscape (token c)
   \<and> url_sent (GetSounds c srv log) = baseURL c @ ''/sounds.json?token='' @ QueryEscape (token c)
   \<and> QueryUnescape (QueryEscape (token c)) = Some (token c)
   \<and> (CHR ''?'' \<notin> set (baseURL c) \<and> CHR ''#'' \<notin> set (baseURL c) \<longrightarrow>
         RawQuery (url_sent (GetSounds c srv log)) = Some (''token='' @ QueryEscape (token c))
       \<and> (CHR ''?'' \<notin> set groupKey \<and> CHR ''#'' \<notin> set groupKey \<longrightarrow>
             RawQuery (url_sent (GetGroup c srv groupKey log))
               = Some (''token='' @ QueryEscape (token c)))
       \<and> (CHR ''?'' \<notin> set receipt \<and> CHR ''#'' \<notin> set receipt \<longrightarrow>
             RawQuery (url_sent (GetReceipt c srv receipt log))
               = Some (''token='' @ QueryEscape (token c))))
   \<and> RawQuery (url_sent (GetGroup example_client remote_ok ''G#1'' [])) = None
   \<and> RawQuery (url_sent (GetGroup example_client remote_ok ''G1.json?token=other_token&x='' []))
        = Some (''token=other_token&x=.json?token='' @ QueryEscape (token example_client))"
proof -
  have posts:
    "token_sent (SendMessage c srv req log) = Some (if rq_Token req = '''' then token c else rq_Token req)"
    "token_sent (ValidateUser c srv vreq log) = Some (if vr_Token vreq = '''' then token c else vr_Token vreq)"
    "token_sent (AddGroupUser c srv groupKey user device memo log) = Some (token c)"
    "token_sent (RemoveGroupUser c srv groupKey user device log) = Some (token c)"
    "token_sent (EnableGroupUser c srv groupKey user device log) = Some (token c)"
    "token_sent (DisableGroupUser c srv groupKey user device log) = Some (token c)"
    "token_sent (RenameGroup c srv groupKey name log) = Some (token c)"
    "token_sent (CancelReceipt c srv receipt log) = Some (token c)"
    by (simp_all add: token_sent_def SendMessage_def ValidateUser_def AddGroupUser_def
          RemoveGroupUser_def EnableGroupUser_def DisableGroupUser_def RenameGroup_def
          CancelReceipt_def doPost_eq member_params_def SendMessage_params_token
          SendMessage_token_def ValidateUser_token_def
          map_of_set_if_other map_of_update_other map_of_update_same)
  have group: "url_sent (GetGroup c' srv' g log')
        = (baseURL c' @ ''/groups/'' @ g @ ''.json'') @ ''?token='' @ QueryEscape (token c')"
    for c' srv' g log'
    by (simp add: url_sent_def GetGroup_def doGet_eq)
  have rcpt: "url_sent (GetReceipt c srv receipt log)
        = (baseURL c @ ''/receipts/'' @ receipt @ ''.json'') @ ''?token='' @ QueryEscape (token c)"
    by (simp add: url_sent_def GetReceipt_def doGet_eq)
  have snds: "url_sent (GetSounds c srv log)
        = (baseURL c @ ''/sounds.json'') @ ''?token='' @ QueryEscape (token c)"
    by (simp add: url_sent_def GetSounds_def doGet_eq)
  have urls:
    "url_sent (GetGroup c srv groupKey log)
        = baseURL c @ ''/groups/'' @ groupKey @ ''.json?token='' @ QueryEscape (token c)"
    "url_sent (GetReceipt c srv receipt log)
        = baseURL c @ ''/receipts/'' @ receipt @ ''.json?token='' @ QueryEscape (token c)"
    "url_sent (GetSounds c srv log) = baseURL c @ ''/sounds.json?token='' @ QueryEscape (token c)"
    by (simp_all add: group rcpt snds)
  have good: "CHR ''?'' \<notin> set (baseURL c) \<and> CHR ''#'' \<notin> set (baseURL c) \<longrightarrow>
         RawQuery (url_sent (GetSounds c srv log)) = Some (''token='' @ QueryEscape (token c))
       \<and> (CHR ''?'' \<notin> set groupKey \<and> CHR ''#'' \<notin> set groupKey \<longrightarrow>
             RawQuery (url_sent (GetGroup c srv groupKey log))
               = Some (''token='' @ QueryEscape (token c)))
       \<and> (CHR ''?'' \<notin> set receipt \<and> CHR ''#'' \<notin> set receipt \<longrightarrow>
             RawQuery (url_sent (GetReceipt c srv receipt log))
               = Some (''token='' @ QueryEscape (token c)))"
    unfolding group rcpt snds
    by (intro impI conjI RawQuery_token) simp_all
  have hash: "RawQuery (url_sent (GetGroup example_client remote_ok ''G#1'' [])) = None"
    by (simp add: group RawQuery_def example_client_def)
  have "url_sent (GetGroup example_client remote_ok ''G1.json?token=other_token&x='' [])
          = (baseURL example_client @ ''/groups/G1.json'') @ CHR ''?''
              # (''token=other_token&x=.json?token='' @ QueryEscape (token example_client))"
    by (simp add: group)
  moreover have "RawQuery ((baseURL example_client @ ''/groups/G1.json'') @ CHR ''?''
              # (''token=other_token&x=.json?token='' @ QueryEscape (token example_client)))
          = Some (''token=other_token&x=.json?token='' @ QueryEscape (token example_client))"
    by (rule RawQuery_append) (simp_all add: example_client_def QueryEscape_no_hash)
  ultimately have other:
    "RawQuery (url_sent (GetGroup example_client remote_ok ''G1.json?token=other_token&x='' []))
        = Some (''token=other_token&x=.json?token='' @ QueryEscape (token example_client))"
    by simp
  show ?thesis
    using posts urls good hash other QueryUnescape_QueryEscape [of "token c"]
    by (intro conjI) assumption+
qed

theorem client_token_witness:
  "token_sent (SendMessage example_client remote_ok
       (optional_fields (example_message\<lparr>m_APIToken := Known ''override_token''\<rparr>)) [])
     = Some ''override_token''
   \<and> token_sent (SendMessage example_client remote_ok (optional_fields example_message) [])
     = Some ''provider_token''
   \<and> CHR ''?'' \<notin> set (baseURL example_client) \<and> CHR ''#'' \<notin> set (baseURL example_client)
   \<and> CHR ''?'' \<notin> set ''G1'' \<and> CHR ''#'' \<notin> set ''G1''
   \<and> RawQuery (url_sent (GetGroup example_client remote_ok ''G1'' [])) = Some ''token=provider_token''
   \<and> RawQuery (url_sent (GetReceipt example_client remote_ok ''G1'' [])) = Some ''token=provider_token''
   \<and> RawQuery (url_sent (GetSounds example_client remote_ok [])) = Some ''token=provider_token''
   \<and> RawQuery (url_sent (GetGroup example_client remote_ok ''G#1'' [])) = None
   \<and> RawQuery (url_sent (GetGroup example_client remote_ok ''G1.json?token=other_token&x='' []))
        = Some ''token=other_token&x=.json?token=provider_token''"
  using client_token [where c = example_client and srv = remote_ok and log = "[]"
      and req = "optional_fields (example_message\<lparr>m_APIToken := Known ''override_token''\<rparr>)"
      and groupKey = "''G1''" and receipt = "''G1''"]
    client_token [where c = example_client and srv = remote_ok and log = "[]"
      and req = "optional_fields example_message"]
  by (simp add: optional_fields_def example_message_def example_client_def Let_def
        QueryEscape_def escape_byte_def shouldEscape_def)

section \<open>Group membership create and update: the state is written last\<close>

text \<open>
  C10. In a create and in an update every call but the last one made has succeeded, so
  no call follows a failed one. When the last call made failed, the state of the
  response is the one it had and an error is reported. Otherwise no error is reported
  and the state is the new one: written only after every call of the operation
  succeeded.
\<close>

theorem group_write_after_success:
  "(case GroupUserResource_Create c srv data (new_response st) log of (resp', log') \<Rightarrow>
      log' = log @ issued log log'
    \<and> (\<forall>ex\<in>set (butlast (issued log log')). \<not> failed ex)
    \<and> (if issued log log' \<noteq> [] \<and> failed (last (issued log log'))
        then State resp' = st \<and> Diagnostics resp' \<noteq> []
        else Diagnostics resp' = []
           \<and> State resp' = Some (data\<lparr>g_ID := Known (compute_id (ValueString (g_GroupKey data))
                 (ValueString (g_UserKey data)) (ValueString (g_Device data)))\<rparr>)))
   \<and> (case GroupUserResource_Update c srv data state (new_response st) log of (resp', log') \<Rightarrow>
      log' = log @ issued log log'
    \<and> (\<forall>ex\<in>set (butlast (issued log log')). \<not> failed ex)
    \<and> (if issued log log' \<noteq> [] \<and> failed (last (issued log log'))
        then State resp' = st \<and> Diagnostics resp' \<noteq> []
        else Diagnostics resp' = [] \<and> State resp' = Some data))"
proof (intro conjI)
  show "case GroupUserResource_Create c srv data (new_response st) log of (resp', log') \<Rightarrow>
      log' = log @ issued log log'
    \<and> (\<forall>ex\<in>set (butlast (issued log log')). \<not> failed ex)
    \<and> (if issued log log' \<noteq> [] \<and> failed (last (issued log log'))
        then State resp' = st \<and> Diagnostics resp' \<noteq> []
        else Diagnostics resp' = []
           \<and> State resp' = Some (data\<lparr>g_ID := Known (compute_id (ValueString (g_GroupKey data))
                 (ValueString (g_UserKey data)) (ValueString (g_Device data)))\<rparr>))"
    by (auto simp: GroupUserResource_Create_def AddGroupUser_def DisableGroupUser_def doPost_eq Let_def
          failed_iff split: sum.splits)
next
  show "case GroupUserResource_Update c srv data state (new_response st) log of (resp', log') \<Rightarrow>
      log' = log @ issued log log'
    \<and> (\<forall>ex\<in>set (butlast (issued log log')). \<not> failed ex)
    \<and> (if issued log log' \<noteq> [] \<and> failed (last (issued log log'))
        then State resp' = st \<and> Diagnostics resp' \<noteq> []
        else Diagnostics resp' = [] \<and> State resp' = Some data)"
    by (auto simp: GroupUserResource_Update_def update_toggle_def AddGroupUser_def DisableGroupUser_def
          EnableGroupUser_def doPost_eq Let_def failed_iff split: sum.splits)
qed

theorem group_write_after_success_witness:
  "GroupUserResource_Update example_client remote_second_call_rejected
      (example_membership\<lparr>g_Memo := Known ''backup'', g_Disabled := Known True\<rparr>) example_membership
      (new_response (Some example_membership)) []
    = (\<lparr>Diagnostics = [(''Failed to disable group user'',
                         ''pushover API error: user is not a member of this group'')],
        State = Some example_membership\<rparr>,
       snd (GroupUserResource_Update example_client remote_second_call_rejected
         (example_membership\<lparr>g_Memo := Known ''backup'', g_Disabled := Known True\<rparr>) example_membership
         (new_response (Some example_membership)) []))
   \<and> map failed (snd (GroupUserResource_Update example_client remote_second_call_rejected
         (example_membership\<lparr>g_Memo := Known ''backup'', g_Disabled := Known True\<rparr>) example_membership
         (new_response (Some example_membership)) [])) = [False, True]
   \<and> map failed (snd (GroupUserResource_Create example_client remote_down
         example_membership (new_response None) [])) = [True]
   \<and> fst (GroupUserResource_Create example_client remote_down
         example_membership (new_response None) [])
      = \<lparr>Diagnostics = [(''Failed to add user to group'', ''sending request: connection refused'')],
         State = None\<rparr>"
  using group_write_after_success [where c = example_client and srv = remote_second_call_rejected
     and data = "example_membership\<lparr>g_Memo := Known ''backup'', g_Disabled := Known True\<rparr>"
     and state = example_membership and log = "[]" and st = "Some example_membership"]
  by (simp add: run_defs)

end
